theory Spec2Isabelle
  imports Main
begin

section \<open>The job script \<open>ci/jobs/docker_server_from_binary.py\<close>\<close>

text \<open>
  The script parses three command-line options, copies a prebuilt binary into the image
  build context, optionally logs in to the registry, runs one \<open>docker buildx build\<close>
  command and hands the single result entry to the reporter. Everything it does is an
  interaction with the outside world (the shell, the secret store, the result helper), so
  the model threads a trace of these interactions through the functions and takes the
  outside world as a parameter. The stopwatch created on line 46 only measures time and
  has no counterpart here.
\<close>

subsection \<open>Command line\<close>

text \<open>
  \<open>parse_args\<close> (lines 9--27) declares \<open>--tag-type\<close> (a string restricted to three
  choices, default \<open>head\<close>), \<open>--push\<close> (\<open>store_true\<close>) and \<open>--os\<close> (default the
  list \<open>["ubuntu", "alpine"]\<close>, a plain string when given), on a parser that keeps the
  standard library's \<open>-h/--help\<close> option. The command line is modelled after
  \<open>argparse\<close> has split it into option occurrences, in command-line order:
  \<^item> \<open>Tag_type_opt v\<close>: \<open>--tag-type v\<close> (or \<open>--tag-type=v\<close>, or an abbreviation);
  \<^item> \<open>Push_opt\<close>: \<open>--push\<close>;
  \<^item> \<open>Os_opt v\<close>: \<open>--os v\<close>;
  \<^item> \<open>Help_opt\<close>: \<open>-h\<close> or \<open>--help\<close>;
  \<^item> \<open>Unrecognized s\<close>: an argument that matches no declared option;
  \<^item> \<open>Malformed s\<close>: a declared option used in a way \<open>argparse\<close> rejects on the spot
    (\<open>--tag-type\<close> without a value, \<open>--push=x\<close>).
\<close>

datatype cli_item =
    Tag_type_opt string
  | Push_opt
  | Os_opt string
  | Help_opt
  | Unrecognized string
  | Malformed string

text \<open>\<open>args.os\<close> is the default list, or the string given on the command line.\<close>

datatype os_value = Os_list "string list" | Os_str string

record args =
  args_tag_type :: string
  args_push :: bool
  args_os :: os_value

definition tag_type_choices :: "string list" where
  "tag_type_choices = [''head'', ''release'', ''release-latest'']"

definition default_args :: args where
  "default_args =
     \<lparr>args_tag_type = ''head'', args_push = False,
      args_os = Os_list [''ubuntu'', ''alpine'']\<rparr>"

text \<open>
  \<open>argparse\<close> handles the occurrences from left to right. A value outside \<open>choices\<close>
  and a malformed occurrence end the process with status 2 at once; the help option prints
  the help text and ends it with status 0 at once; unrecognized arguments are collected
  and reported, with status 2, only after the whole command line has been read.
  \<open>Inl c\<close> is the exit of the process with status \<open>c\<close>.
\<close>

fun parse_items :: "args \<Rightarrow> string list \<Rightarrow> cli_item list \<Rightarrow> int + args" where
  "parse_items ns extras [] = (if extras = [] then Inr ns else Inl 2)"
| "parse_items ns extras (Tag_type_opt v # rest) =
     (if v \<in> set tag_type_choices
      then parse_items (ns\<lparr>args_tag_type := v\<rparr>) extras rest
      else Inl 2)"
| "parse_items ns extras (Push_opt # rest) =
     parse_items (ns\<lparr>args_push := True\<rparr>) extras rest"
| "parse_items ns extras (Os_opt v # rest) =
     parse_items (ns\<lparr>args_os := Os_str v\<rparr>) extras rest"
| "parse_items ns extras (Help_opt # rest) = Inl 0"
| "parse_items ns extras (Unrecognized s # rest) =
     parse_items ns (extras @ [s]) rest"
| "parse_items ns extras (Malformed s # rest) = Inl 2"

definition parse_args :: "cli_item list \<Rightarrow> int + args" where
  "parse_args argv = parse_items default_args [] argv"


subsection \<open>The outside world and the trace of a run\<close>

text \<open>
  Every call that leaves the script is recorded, in order:
  \<^item> \<open>Ev_shell_check command stdin_str strict verbose\<close>: a call of \<open>Shell.check\<close>;
  \<^item> \<open>Ev_secret_get_value key\<close>: a call of \<open>Secret.Config(key, ...).get_value()\<close>;
  \<^item> \<open>Ev_from_commands_run name command with_log\<close>: a call of
    \<open>Result.from_commands_run\<close>.
\<close>

datatype event =
    Ev_shell_check string "string option" bool bool
  | Ev_secret_get_value string
  | Ev_from_commands_run string string bool

text \<open>
  The outside world answers a shell command with an exit status and its output, and a
  secret lookup with the secret or with nothing. Both answers may depend on everything
  that happened before (the trace so far).
\<close>

record env =
  env_shell :: "event list \<Rightarrow> string \<Rightarrow> string option \<Rightarrow> int \<times> string"
  env_secret :: "event list \<Rightarrow> string \<Rightarrow> string option"

datatype failure =
    Strict_failure string int
  | Secret_unavailable string

datatype status = OK | FAIL

record result =
  res_name :: string
  res_status :: status
  res_log :: "string option"

record job_result =
  job_results :: "result list"
  job_status :: status

datatype outcome =
    Parser_exit int
  | Aborted failure
  | Job_completed job_result

subsection \<open>The helpers of the CI framework\<close>

text \<open>
  Modelled from the spec: \<open>Shell.check\<close> of \<open>praktika.utils\<close>, which is not part of the
  sources at hand. It runs the command once, with \<open>stdin_str\<close> on its standard input, and
  returns whether the exit status was zero; a strict invocation aborts the job on a
  non-zero status instead of returning.
\<close>

definition Shell_check ::
  "env \<Rightarrow> string \<Rightarrow> string option \<Rightarrow> bool \<Rightarrow> bool \<Rightarrow> event list \<Rightarrow> (failure + bool) \<times> event list"
where
  "Shell_check w command stdin_str strict verbose tr =
     (let rc = fst (env_shell w tr command stdin_str);
          tr' = tr @ [Ev_shell_check command stdin_str strict verbose]
      in if rc = 0 then (Inr True, tr')
         else if strict then (Inl (Strict_failure command rc), tr')
         else (Inr False, tr'))"

text \<open>
  Modelled from the spec: \<open>Secret.Config(key, ...).get_value()\<close> of \<open>praktika\<close>, the
  lookup of a credential in the secret store by a fixed key. The spec names no failure of
  the lookup; the store of the model may also answer with nothing, and the job then ends
  there, as it does on a Python exception. What is proved below holds for a store that can
  fail and for one that cannot.
\<close>

definition Secret_get_value ::
  "env \<Rightarrow> string \<Rightarrow> event list \<Rightarrow> (failure + string) \<times> event list"
where
  "Secret_get_value w key tr =
     (let tr' = tr @ [Ev_secret_get_value key]
      in case env_secret w tr key of
           None \<Rightarrow> (Inl (Secret_unavailable key), tr')
         | Some v \<Rightarrow> (Inr v, tr'))"

text \<open>
  Modelled from the spec: \<open>Result.from_commands_run\<close> of \<open>praktika.result\<close>. It runs the
  command, and captures its exit status and, with \<open>with_log\<close>, its output in a result
  entry; a failing command gives a failed entry, not an abort.
\<close>

definition Result_from_commands_run ::
  "env \<Rightarrow> string \<Rightarrow> string \<Rightarrow> bool \<Rightarrow> event list \<Rightarrow> result \<times> event list"
where
  "Result_from_commands_run w name command with_log tr =
     (let (rc, out) = env_shell w tr command None
      in (\<lparr>res_name = name,
           res_status = (if rc = 0 then OK else FAIL),
           res_log = (if with_log then Some out else None)\<rparr>,
          tr @ [Ev_from_commands_run name command with_log]))"

text \<open>
  Modelled from the spec: \<open>Result.create_from(results, stopwatch)\<close> aggregates the
  entries (the job fails if any entry failed), and \<open>complete_job\<close> reports the aggregate
  and ends the process with it.
\<close>

definition Result_create_from :: "result list \<Rightarrow> job_result" where
  "Result_create_from results =
     \<lparr>job_results = results,
      job_status = (if list_all (\<lambda>r. res_status r = OK) results then OK else FAIL)\<rparr>"

definition complete_job :: "job_result \<Rightarrow> outcome" where
  "complete_job j = Job_completed j"

subsection \<open>\<open>docker_login\<close> (lines 30--41)\<close>

definition probe_command :: string where
  "probe_command = ''docker system info | grep --quiet -E 'Username|Registry'' @ [CHR 0x27]"

definition login_command :: string where
  "login_command = ''docker login --username 'robotclickhouse' --password-stdin''"

definition secret_key :: string where
  "secret_key = ''dockerhub_robot_password''"

text \<open>The default value of the parameter \<open>relogin\<close>.\<close>

definition relogin_default :: bool where
  "relogin_default = True"

text \<open>
  \<open>relogin or not Shell.check(probe)\<close> evaluates the probe only when \<open>relogin\<close> is
  false. The arguments of the login call are evaluated before the call, so the secret is
  fetched first. The keyword \<open>encoding\<close> of the login call has no counterpart here.
\<close>

definition docker_login ::
  "env \<Rightarrow> bool \<Rightarrow> event list \<Rightarrow> (failure + unit) \<times> event list"
where
  "docker_login w relogin tr =
     (let (cond, tr1) =
            (if relogin then (Inr True, tr)
             else (case Shell_check w probe_command None False False tr of
                     (Inl f, t) \<Rightarrow> (Inl f, t)
                   | (Inr b, t) \<Rightarrow> (Inr (\<not> b), t)))
      in case cond of
           Inl f \<Rightarrow> (Inl f, tr1)
         | Inr False \<Rightarrow> (Inr (), tr1)
         | Inr True \<Rightarrow>
             (case Secret_get_value w secret_key tr1 of
                (Inl f, tr2) \<Rightarrow> (Inl f, tr2)
              | (Inr password, tr2) \<Rightarrow>
                  (case Shell_check w login_command (Some password) True False tr2 of
                     (Inl f, tr3) \<Rightarrow> (Inl f, tr3)
                   | (Inr _, tr3) \<Rightarrow> (Inr (), tr3))))"

subsection \<open>\<open>main\<close> (lines 44--76)\<close>

definition image_path :: string where
  "image_path = ''./ci/docker/clickhouse-server''"

definition image_repo :: string where
  "image_repo = ''clickhouse/clickhouse-server''"

definition copy_command :: string where
  "copy_command = ''cp /tmp/praktika/input/clickhouse '' @ image_path @ ''/''"

text \<open>
  The f-string of lines 66--69. A backslash at the end of a line inside the literal joins
  the lines, and the twenty blanks that indent each continuation line stay in the string.
\<close>

definition build_command :: string where
  "build_command =
     ''docker buildx build --platform linux/arm64 '' @
     ''                    -t '' @ image_repo @ '':tmp '' @ image_path @
     '' -f '' @ image_path @ ''/from_binary/Dockerfile.ubuntu '' @
     ''                    --cache-from=type=local,src=/tmp/build-cache '' @
     ''                    --cache-to=type=local,dest=/tmp/build-cache''"

definition result_name :: string where
  "result_name = image_repo @ '':tmp''"

text \<open>Lines 50--76: what \<open>main\<close> does once the arguments are parsed.\<close>

definition main_with_args :: "env \<Rightarrow> args \<Rightarrow> outcome \<times> event list" where
  "main_with_args w a =
     (let push = args_push a
      in case Shell_check w copy_command None True True [] of
           (Inl f, tr1) \<Rightarrow> (Aborted f, tr1)
         | (Inr _, tr1) \<Rightarrow>
             (case (if push then docker_login w relogin_default tr1 else (Inr (), tr1)) of
                (Inl f, tr2) \<Rightarrow> (Aborted f, tr2)
              | (Inr _, tr2) \<Rightarrow>
                  (let results = [];
                       (r, tr3) = Result_from_commands_run w result_name build_command True tr2;
                       results = results @ [r]
                   in (complete_job (Result_create_from results), tr3))))"

definition main :: "env \<Rightarrow> cli_item list \<Rightarrow> outcome \<times> event list" where
  "main w argv =
     (case parse_args argv of
        Inl code \<Rightarrow> (Parser_exit code, [])
      | Inr a \<Rightarrow> main_with_args w a)"

subsection \<open>Reading a trace\<close>

text \<open>The shell command an event runs, through whichever helper.\<close>

fun ev_command :: "event \<Rightarrow> string option" where
  "ev_command (Ev_shell_check c s st v) = Some c"
| "ev_command (Ev_secret_get_value k) = None"
| "ev_command (Ev_from_commands_run n c l) = Some c"

text \<open>What an event puts on the standard input of its command.\<close>

fun ev_stdin :: "event \<Rightarrow> string option" where
  "ev_stdin (Ev_shell_check c s st v) = s"
| "ev_stdin (Ev_secret_get_value k) = None"
| "ev_stdin (Ev_from_commands_run n c l) = None"

definition is_copy :: "event \<Rightarrow> bool" where
  "is_copy ev = (ev_command ev = Some copy_command)"

definition is_login :: "event \<Rightarrow> bool" where
  "is_login ev = (ev_command ev = Some login_command)"

definition is_probe :: "event \<Rightarrow> bool" where
  "is_probe ev = (ev_command ev = Some probe_command)"

definition is_build :: "event \<Rightarrow> bool" where
  "is_build ev = (ev_command ev = Some build_command)"

text \<open>The four calls \<open>main\<close> can make, as they appear in a trace.\<close>

definition copy_event :: event where
  "copy_event = Ev_shell_check copy_command None True True"

definition secret_event :: event where
  "secret_event = Ev_secret_get_value secret_key"

definition login_event :: "string \<Rightarrow> event" where
  "login_event password = Ev_shell_check login_command (Some password) True False"

definition build_event :: event where
  "build_event = Ev_from_commands_run result_name build_command True"

text \<open>The entry that the build command leaves when it runs after the trace \<open>tr\<close>.\<close>

definition build_result :: "env \<Rightarrow> event list \<Rightarrow> result" where
  "build_result w tr =
     \<lparr>res_name = result_name,
      res_status = (if fst (env_shell w tr build_command None) = 0 then OK else FAIL),
      res_log = Some (snd (env_shell w tr build_command None))\<rparr>"

text \<open>
  The strict steps of a run all succeed: the copy exits with status 0 and, when a push is
  requested, the secret store yields the password and the login exits with status 0.
\<close>

definition strict_steps_ok :: "env \<Rightarrow> args \<Rightarrow> bool" where
  "strict_steps_ok w a =
     (fst (env_shell w [] copy_command None) = 0 \<and>
      (args_push a \<longrightarrow>
         (case env_secret w [copy_event] secret_key of
            None \<Rightarrow> False
          | Some password \<Rightarrow>
              fst (env_shell w [copy_event, secret_event] login_command (Some password)) = 0)))"

subsection \<open>Sample worlds\<close>

text \<open>Every command succeeds and the secret store holds a password.\<close>

definition world_ok :: env where
  "world_ok =
     \<lparr>env_shell = (\<lambda>tr c s. (0, ''done'')),
      env_secret = (\<lambda>tr k. Some ''hunter2'')\<rparr>"

text \<open>The input binary is missing: the copy exits with status 1.\<close>

definition world_copy_fails :: env where
  "world_copy_fails =
     \<lparr>env_shell = (\<lambda>tr c s. if c = copy_command then (1, ''cp: cannot stat'') else (0, ''done'')),
      env_secret = (\<lambda>tr k. Some ''hunter2'')\<rparr>"

text \<open>The registry refuses the password: the login exits with status 1.\<close>

definition world_login_fails :: env where
  "world_login_fails =
     \<lparr>env_shell = (\<lambda>tr c s. if c = login_command then (1, ''denied'') else (0, ''done'')),
      env_secret = (\<lambda>tr k. Some ''hunter2'')\<rparr>"

text \<open>The image does not build: the build command exits with status 1.\<close>

definition world_build_fails :: env where
  "world_build_fails =
     \<lparr>env_shell = (\<lambda>tr c s. if c = build_command then (1, ''ERROR: failed to solve'') else (0, ''done'')),
      env_secret = (\<lambda>tr k. Some ''hunter2'')\<rparr>"

section \<open>Properties\<close>

subsection \<open>The command strings\<close>

lemma copy_command_literal:
  "copy_command = ''cp /tmp/praktika/input/clickhouse ./ci/docker/clickhouse-server/''"
  by (simp add: copy_command_def image_path_def)

lemma build_command_literal:
  "build_command = ''docker buildx build --platform linux/arm64                     -t clickhouse/clickhouse-server:tmp ./ci/docker/clickhouse-server -f ./ci/docker/clickhouse-server/from_binary/Dockerfile.ubuntu                     --cache-from=type=local,src=/tmp/build-cache                     --cache-to=type=local,dest=/tmp/build-cache''"
  by (simp add: build_command_def image_path_def image_repo_def)

lemma result_name_literal: "result_name = ''clickhouse/clickhouse-server:tmp''"
  by (simp add: result_name_def image_repo_def)

lemma commands_distinct:
  "copy_command \<noteq> login_command" "copy_command \<noteq> build_command"
  "copy_command \<noteq> probe_command" "login_command \<noteq> build_command"
  "login_command \<noteq> probe_command" "build_command \<noteq> probe_command"
  by (simp_all add: copy_command_def login_command_def build_command_def probe_command_def)

subsection \<open>The five ways through \<open>main\<close>\<close>

lemma run_copy_fails:
  assumes "fst (env_shell w [] copy_command None) \<noteq> 0"
  shows "main_with_args w a =
           (Aborted (Strict_failure copy_command (fst (env_shell w [] copy_command None))),
            [copy_event])"
  using assms by (simp add: main_with_args_def Shell_check_def copy_event_def Let_def)

lemma run_no_push:
  assumes "fst (env_shell w [] copy_command None) = 0" and "\<not> args_push a"
  shows "main_with_args w a =
           (Job_completed (Result_create_from [build_result w [copy_event]]),
            [copy_event, build_event])"
  using assms
  by (simp add: main_with_args_def Shell_check_def copy_event_def Let_def
      Result_from_commands_run_def complete_job_def build_result_def build_event_def
      split: prod.splits)

lemma run_push_no_secret:
  assumes "fst (env_shell w [] copy_command None) = 0" and "args_push a"
    and "env_secret w [copy_event] secret_key = None"
  shows "main_with_args w a =
           (Aborted (Secret_unavailable secret_key), [copy_event, secret_event])"
  using assms
  by (simp add: main_with_args_def Shell_check_def copy_event_def Let_def relogin_default_def
      docker_login_def Secret_get_value_def secret_event_def)

lemma run_push_login_fails:
  assumes "fst (env_shell w [] copy_command None) = 0" and "args_push a"
    and "env_secret w [copy_event] secret_key = Some pw"
    and "fst (env_shell w [copy_event, secret_event] login_command (Some pw)) \<noteq> 0"
  shows "main_with_args w a =
           (Aborted (Strict_failure login_command
              (fst (env_shell w [copy_event, secret_event] login_command (Some pw)))),
            [copy_event, secret_event, login_event pw])"
  using assms
  by (simp add: main_with_args_def Shell_check_def copy_event_def Let_def relogin_default_def
      docker_login_def Secret_get_value_def secret_event_def login_event_def)

lemma run_push_login_ok:
  assumes "fst (env_shell w [] copy_command None) = 0" and "args_push a"
    and "env_secret w [copy_event] secret_key = Some pw"
    and "fst (env_shell w [copy_event, secret_event] login_command (Some pw)) = 0"
  shows "main_with_args w a =
           (Job_completed
              (Result_create_from [build_result w [copy_event, secret_event, login_event pw]]),
            [copy_event, secret_event, login_event pw, build_event])"
  using assms
  by (simp add: main_with_args_def Shell_check_def copy_event_def Let_def relogin_default_def
      docker_login_def Secret_get_value_def secret_event_def login_event_def
      Result_from_commands_run_def complete_job_def build_result_def build_event_def
      split: prod.splits)

text \<open>Every run takes one of the five ways.\<close>

lemma run_cases:
  obtains
    (copy_fails) "fst (env_shell w [] copy_command None) \<noteq> 0"
      "main_with_args w a =
         (Aborted (Strict_failure copy_command (fst (env_shell w [] copy_command None))),
          [copy_event])"
  | (no_push) "fst (env_shell w [] copy_command None) = 0" "\<not> args_push a"
      "main_with_args w a =
         (Job_completed (Result_create_from [build_result w [copy_event]]),
          [copy_event, build_event])"
  | (no_secret) "fst (env_shell w [] copy_command None) = 0" "args_push a"
      "env_secret w [copy_event] secret_key = None"
      "main_with_args w a =
         (Aborted (Secret_unavailable secret_key), [copy_event, secret_event])"
  | (login_fails) pw where "fst (env_shell w [] copy_command None) = 0" "args_push a"
      "env_secret w [copy_event] secret_key = Some pw"
      "fst (env_shell w [copy_event, secret_event] login_command (Some pw)) \<noteq> 0"
      "main_with_args w a =
         (Aborted (Strict_failure login_command
            (fst (env_shell w [copy_event, secret_event] login_command (Some pw)))),
          [copy_event, secret_event, login_event pw])"
  | (login_ok) pw where "fst (env_shell w [] copy_command None) = 0" "args_push a"
      "env_secret w [copy_event] secret_key = Some pw"
      "fst (env_shell w [copy_event, secret_event] login_command (Some pw)) = 0"
      "main_with_args w a =
         (Job_completed
            (Result_create_from
               [build_result w [copy_event, secret_event, login_event pw]]),
          [copy_event, secret_event, login_event pw, build_event])"
proof (cases "fst (env_shell w [] copy_command None) = 0")
  case False
  then show ?thesis using run_copy_fails [of w a] copy_fails by blast
next
  case copy_ok: True
  show ?thesis
  proof (cases "args_push a")
    case False
    then show ?thesis using run_no_push [OF copy_ok] no_push copy_ok by blast
  next
    case push: True
    show ?thesis
    proof (cases "env_secret w [copy_event] secret_key")
      case None
      then show ?thesis
        using run_push_no_secret [OF copy_ok push] no_secret copy_ok push by blast
    next
      case (Some pw)
      show ?thesis
      proof (cases "fst (env_shell w [copy_event, secret_event] login_command (Some pw)) = 0")
        case True
        then show ?thesis
          using run_push_login_ok [OF copy_ok push Some] login_ok copy_ok push Some by blast
      next
        case False
        then show ?thesis
          using run_push_login_fails [OF copy_ok push Some] login_fails copy_ok push Some
          by blast
      qed
    qed
  qed
qed

subsection \<open>Kinds of events\<close>

lemma event_kinds [simp]:
  "is_copy copy_event" "\<not> is_copy secret_event" "\<not> is_copy (login_event pw)" "\<not> is_copy build_event"
  "\<not> is_login copy_event" "\<not> is_login secret_event" "is_login (login_event pw)" "\<not> is_login build_event"
  "\<not> is_build copy_event" "\<not> is_build secret_event" "\<not> is_build (login_event pw)" "is_build build_event"
  "\<not> is_probe copy_event" "\<not> is_probe secret_event" "\<not> is_probe (login_event pw)" "\<not> is_probe build_event"
  using commands_distinct
  by (auto simp add: is_copy_def is_login_def is_build_def is_probe_def
      copy_event_def secret_event_def login_event_def build_event_def)

subsection \<open>The parser\<close>

lemma parse_items_push:
  "parse_items ns extras items = Inr a \<Longrightarrow> args_push a = (args_push ns \<or> Push_opt \<in> set items)"
proof (induction ns extras items rule: parse_items.induct)
qed (auto split: if_splits)

lemma parse_args_push:
  "parse_args argv = Inr a \<Longrightarrow> args_push a = (Push_opt \<in> set argv)"
  by (simp add: parse_args_def default_args_def parse_items_push)



lemma parse_items_exit: "parse_items ns extras items = Inl c \<Longrightarrow> c = 0 \<or> c = 2"
  by (induction ns extras items rule: parse_items.induct) (auto split: if_splits)

subsection \<open>From the command line to the job\<close>

lemma main_accepted: "parse_args argv = Inr a \<Longrightarrow> main w argv = main_with_args w a"
  by (simp add: main_def)

lemma main_rejected: "parse_args argv = Inl c \<Longrightarrow> main w argv = (Parser_exit c, [])"
  by (simp add: main_def)

lemma main_with_args_push_only:
  "args_push a = args_push a' \<Longrightarrow> main_with_args w a = main_with_args w a'"
  by (simp add: main_with_args_def)

subsection \<open>Sample runs\<close>

lemma world_ok_simps [simp]:
  "env_shell world_ok tr c s = (0, ''done'')" "env_secret world_ok tr k = Some ''hunter2''"
  by (simp_all add: world_ok_def)

lemma parse_examples:
  "parse_args [] = Inr default_args"
  "parse_args [Push_opt] = Inr (default_args\<lparr>args_push := True\<rparr>)"
  "parse_args [Tag_type_opt ''release'', Os_opt ''alpine''] =
     Inr (default_args\<lparr>args_tag_type := ''release'', args_os := Os_str ''alpine''\<rparr>)"
  by (simp_all add: parse_args_def tag_type_choices_def)

lemma world_copy_fails_simps [simp]:
  "env_shell world_copy_fails tr c s = (if c = copy_command then (1, ''cp: cannot stat'') else (0, ''done''))"
  "env_secret world_copy_fails tr k = Some ''hunter2''"
  by (simp_all add: world_copy_fails_def)

lemma world_login_fails_simps [simp]:
  "env_shell world_login_fails tr c s = (if c = login_command then (1, ''denied'') else (0, ''done''))"
  "env_secret world_login_fails tr k = Some ''hunter2''"
  by (simp_all add: world_login_fails_def)

lemma world_build_fails_simps [simp]:
  "env_shell world_build_fails tr c s = (if c = build_command then (1, ''ERROR: failed to solve'') else (0, ''done''))"
  "env_secret world_build_fails tr k = Some ''hunter2''"
  by (simp_all add: world_build_fails_def)

lemma push_args [simp]: "args_push default_args = False" "args_push (default_args\<lparr>args_push := True\<rparr>) = True"
  by (simp_all add: default_args_def)

lemma parse_push: "parse_args [Push_opt] = Inr (default_args\<lparr>args_push := True\<rparr>)"
  by (rule parse_examples)

lemma parse_none: "parse_args [] = Inr default_args"
  by (rule parse_examples)

lemma run_ok_no_flags:
  "main world_ok [] =
     (Job_completed
        \<lparr>job_results = [\<lparr>res_name = result_name, res_status = OK, res_log = Some ''done''\<rparr>],
         job_status = OK\<rparr>,
      [copy_event, build_event])"
  using run_no_push [of world_ok default_args]
  by (simp add: main_accepted [OF parse_none] build_result_def Result_create_from_def)

lemma run_ok_push:
  "main world_ok [Push_opt] =
     (Job_completed
        \<lparr>job_results = [\<lparr>res_name = result_name, res_status = OK, res_log = Some ''done''\<rparr>],
         job_status = OK\<rparr>,
      [copy_event, secret_event, login_event ''hunter2'', build_event])"
  using run_push_login_ok [of world_ok "default_args\<lparr>args_push := True\<rparr>" "''hunter2''"]
  by (simp add: main_accepted [OF parse_push] build_result_def Result_create_from_def)

lemma run_copy_fails_no_flags:
  "main world_copy_fails [] = (Aborted (Strict_failure copy_command 1), [copy_event])"
  using run_copy_fails [of world_copy_fails default_args]
  by (simp add: main_accepted [OF parse_none])

lemma run_copy_fails_push:
  "main world_copy_fails [Push_opt] = (Aborted (Strict_failure copy_command 1), [copy_event])"
  using run_copy_fails [of world_copy_fails "default_args\<lparr>args_push := True\<rparr>"]
  by (simp add: main_accepted [OF parse_push])

lemma run_login_fails_push:
  "main world_login_fails [Push_opt] =
     (Aborted (Strict_failure login_command 1),
      [copy_event, secret_event, login_event ''hunter2''])"
  using run_push_login_fails [of world_login_fails "default_args\<lparr>args_push := True\<rparr>" "''hunter2''"]
    commands_distinct
  by (simp add: main_accepted [OF parse_push])

lemma run_build_fails_no_flags:
  "main world_build_fails [] =
     (Job_completed
        \<lparr>job_results =
           [\<lparr>res_name = result_name, res_status = FAIL,
             res_log = Some ''ERROR: failed to solve''\<rparr>],
         job_status = FAIL\<rparr>,
      [copy_event, build_event])"
  using run_no_push [of world_build_fails default_args] commands_distinct
  by (simp add: main_accepted [OF parse_none] build_result_def Result_create_from_def)

section \<open>The claims\<close>

text \<open>
  Claim C1. Two accepted invocations that agree on \<open>--push\<close> behave alike in every
  world, whatever their \<open>--tag-type\<close> and \<open>--os\<close> values are; the command of every
  build call in a run is the one fixed string, which names the platform \<open>linux/arm64\<close>,
  the image reference \<open>clickhouse/clickhouse-server:tmp\<close>, the ubuntu Dockerfile and
  the cache directory \<open>/tmp/build-cache\<close>.
\<close>

theorem build_command_fixed:
  assumes "parse_args argv = Inr a" and "parse_args argv' = Inr a'"
  shows "(args_push a = args_push a' \<longrightarrow> main w argv = main w argv') \<and>
         (\<forall>n c l. Ev_from_commands_run n c l \<in> set (snd (main w argv)) \<longrightarrow> c = build_command) \<and>
         build_command = ''docker buildx build --platform linux/arm64                     -t clickhouse/clickhouse-server:tmp ./ci/docker/clickhouse-server -f ./ci/docker/clickhouse-server/from_binary/Dockerfile.ubuntu                     --cache-from=type=local,src=/tmp/build-cache                     --cache-to=type=local,dest=/tmp/build-cache''"
proof (intro conjI impI allI)
  assume "args_push a = args_push a'"
  then show "main w argv = main w argv'"
    using assms by (simp add: main_accepted main_with_args_push_only [of a a'])
next
  fix n c l
  assume ev: "Ev_from_commands_run n c l \<in> set (snd (main w argv))"
  have m: "main w argv = main_with_args w a" using assms(1) by (rule main_accepted)
  show "c = build_command"
    by (rule run_cases [where w = w and a = a])
      (use ev m in \<open>auto simp add: copy_event_def secret_event_def login_event_def build_event_def\<close>)
next
  show "build_command = ''docker buildx build --platform linux/arm64                     -t clickhouse/clickhouse-server:tmp ./ci/docker/clickhouse-server -f ./ci/docker/clickhouse-server/from_binary/Dockerfile.ubuntu                     --cache-from=type=local,src=/tmp/build-cache                     --cache-to=type=local,dest=/tmp/build-cache''"
    by (rule build_command_literal)
qed

theorem build_command_fixed_witness:
  "parse_args [Tag_type_opt ''release'', Os_opt ''alpine''] =
     Inr (default_args\<lparr>args_tag_type := ''release'', args_os := Os_str ''alpine''\<rparr>) \<and>
   parse_args [] = Inr default_args \<and>
   main world_ok [Tag_type_opt ''release'', Os_opt ''alpine''] = main world_ok [] \<and>
   snd (main world_ok []) = [copy_event, build_event]"
proof -
  have p1: "parse_args [Tag_type_opt ''release'', Os_opt ''alpine''] =
     Inr (default_args\<lparr>args_tag_type := ''release'', args_os := Os_str ''alpine''\<rparr>)"
    by (rule parse_examples)
  have p2: "parse_args [] = Inr default_args" by (rule parse_examples)
  have "main world_ok [Tag_type_opt ''release'', Os_opt ''alpine''] = main world_ok []"
    using build_command_fixed [OF p1 p2, of world_ok] by (simp add: default_args_def)
  moreover have "snd (main world_ok []) = [copy_event, build_event]"
    using run_no_push [of world_ok default_args] p2
    by (simp add: main_def default_args_def)
  ultimately show ?thesis using p1 p2 by simp
qed




text \<open>
  Claim C3. When the \<open>--push\<close> flag is absent, no event of the run issues the login
  command, and the credential is not even fetched.
\<close>

theorem no_push_no_login:
  assumes "Push_opt \<notin> set argv"
  shows "\<forall>ev \<in> set (snd (main w argv)). \<not> is_login ev \<and> ev \<noteq> secret_event"
proof (cases "parse_args argv")
  case (Inl c)
  then show ?thesis by (simp add: main_rejected)
next
  case (Inr a)
  then have np: "\<not> args_push a" using assms by (simp add: parse_args_push)
  have m: "main w argv = main_with_args w a" using Inr by (rule main_accepted)
  have d: "copy_event \<noteq> secret_event" "build_event \<noteq> secret_event"
    by (simp_all add: copy_event_def build_event_def secret_event_def)
  show ?thesis
    by (rule run_cases [where w = w and a = a]) (use np m d in auto)
qed

theorem no_push_no_login_witness:
  "Push_opt \<notin> set [Tag_type_opt ''release''] \<and>
   snd (main world_ok [Tag_type_opt ''release'']) = [copy_event, build_event] \<and>
   \<not> is_login copy_event \<and> \<not> is_login build_event"
proof -
  have h: "Push_opt \<notin> set [Tag_type_opt ''release'']" by simp
  have p: "parse_args [Tag_type_opt ''release''] = Inr (default_args\<lparr>args_tag_type := ''release''\<rparr>)"
    by (simp add: parse_args_def tag_type_choices_def)
  have t: "snd (main world_ok [Tag_type_opt ''release'']) = [copy_event, build_event]"
    using run_no_push [of world_ok "default_args\<lparr>args_tag_type := ''release''\<rparr>"]
    by (simp add: main_accepted [OF p])
  show ?thesis
    using h t no_push_no_login [OF h, of world_ok] by simp
qed

text \<open>
  Claim C4, an ordering invariant. When the \<open>--push\<close> flag is present, every run of
  the build command has a login attempt at an earlier position of the trace; and a run
  that reaches the reporter has made a login attempt.
\<close>

theorem push_login_before_build:
  assumes "Push_opt \<in> set argv" and "tr = snd (main w argv)"
  shows "(\<forall>i<length tr. is_build (tr ! i) \<longrightarrow> (\<exists>j<i. is_login (tr ! j))) \<and>
         ((\<exists>r. fst (main w argv) = Job_completed r) \<longrightarrow> (\<exists>j<length tr. is_login (tr ! j)))"
proof (cases "parse_args argv")
  case (Inl c)
  then show ?thesis using assms(2) by (simp add: main_rejected)
next
  case (Inr a)
  then have push: "args_push a" using assms(1) by (simp add: parse_args_push)
  have m: "main w argv = main_with_args w a" using Inr by (rule main_accepted)
  show ?thesis
  proof (rule run_cases [where w = w and a = a])
    assume "main_with_args w a =
      (Aborted (Strict_failure copy_command (fst (env_shell w [] copy_command None))), [copy_event])"
    then show ?thesis using m assms(2) by simp
  next
    assume "\<not> args_push a"
    then show ?thesis using push by simp
  next
    assume "main_with_args w a = (Aborted (Secret_unavailable secret_key), [copy_event, secret_event])"
    then show ?thesis using m assms(2) by (simp add: less_Suc_eq)
  next
    fix pw
    assume "main_with_args w a =
      (Aborted (Strict_failure login_command
         (fst (env_shell w [copy_event, secret_event] login_command (Some pw)))),
       [copy_event, secret_event, login_event pw])"
    then show ?thesis using m assms(2) by (auto simp add: less_Suc_eq numeral_3_eq_3)
  next
    fix pw
    assume r: "main_with_args w a =
      (Job_completed (Result_create_from [build_result w [copy_event, secret_event, login_event pw]]),
       [copy_event, secret_event, login_event pw, build_event])"
    then have tr: "tr = [copy_event, secret_event, login_event pw, build_event]"
      using m assms(2) by simp
    have l: "is_login (tr ! 2)" and n: "2 < length tr" using tr by simp_all
    have b: "\<forall>i<length tr. is_build (tr ! i) \<longrightarrow> i = 3"
      using tr by (auto simp add: less_Suc_eq)
    have "\<forall>i<length tr. is_build (tr ! i) \<longrightarrow> (\<exists>j<i. is_login (tr ! j))"
    proof (intro allI impI)
      fix i
      assume "i < length tr" and "is_build (tr ! i)"
      then have "i = 3" using b by simp
      then have "(2::nat) < i" by simp
      then show "\<exists>j<i. is_login (tr ! j)" using l by blast
    qed
    moreover have "\<exists>j<length tr. is_login (tr ! j)" using l n by blast
    ultimately show ?thesis by simp
  qed
qed

theorem push_login_before_build_witness:
  "Push_opt \<in> set [Push_opt] \<and>
   snd (main world_ok [Push_opt]) = [copy_event, secret_event, login_event ''hunter2'', build_event] \<and>
   is_build (snd (main world_ok [Push_opt]) ! 3) \<and>
   (\<exists>j<3. is_login (snd (main world_ok [Push_opt]) ! j))"
proof -
  have h: "Push_opt \<in> set [Push_opt]" by simp
  have t: "snd (main world_ok [Push_opt]) =
      [copy_event, secret_event, login_event ''hunter2'', build_event]"
    by (simp add: run_ok_push)
  have b: "is_build (snd (main world_ok [Push_opt]) ! 3)" by (simp add: t)
  have "\<exists>j<3. is_login (snd (main world_ok [Push_opt]) ! j)"
    using push_login_before_build [OF h refl, of world_ok] b by (simp add: t)
  then show ?thesis using h t b by blast
qed

text \<open>
  Claim C5. On every accepted invocation the copy command runs exactly once; it is the
  first event of the run, a strict and verbose \<open>Shell.check\<close> of
  \<open>cp /tmp/praktika/input/clickhouse ./ci/docker/clickhouse-server/\<close>; and the build
  command, when it runs, runs at a later position.
\<close>

theorem copy_once_before_build:
  assumes "parse_args argv = Inr a" and "tr = snd (main w argv)"
  shows "length (filter is_copy tr) = 1 \<and>
         tr \<noteq> [] \<and>
         tr ! 0 = Ev_shell_check
                    ''cp /tmp/praktika/input/clickhouse ./ci/docker/clickhouse-server/''
                    None True True \<and>
         (\<forall>i<length tr. is_build (tr ! i) \<longrightarrow> 0 < i \<and> is_copy (tr ! 0))"
proof -
  have m: "tr = snd (main_with_args w a)" using assms by (simp add: main_accepted)
  have c: "copy_event = Ev_shell_check
             ''cp /tmp/praktika/input/clickhouse ./ci/docker/clickhouse-server/'' None True True"
    by (simp add: copy_event_def copy_command_literal)
  have "length (filter is_copy tr) = 1 \<and> tr \<noteq> [] \<and> tr ! 0 = copy_event \<and>
        (\<forall>i<length tr. is_build (tr ! i) \<longrightarrow> 0 < i \<and> is_copy (tr ! 0))"
    by (rule run_cases [where w = w and a = a]) (use m in \<open>auto simp add: nth_Cons'\<close>)
  then show ?thesis using c by simp
qed

theorem copy_once_before_build_witness:
  "parse_args [Push_opt] = Inr (default_args\<lparr>args_push := True\<rparr>) \<and>
   length (filter is_copy (snd (main world_ok [Push_opt]))) = 1 \<and>
   is_build (snd (main world_ok [Push_opt]) ! 3) \<and>
   is_copy (snd (main world_ok [Push_opt]) ! 0)"
proof -
  have b: "is_build (snd (main world_ok [Push_opt]) ! 3)" by (simp add: run_ok_push)
  have n: "3 < length (snd (main world_ok [Push_opt]))" by (simp add: run_ok_push)
  show ?thesis
    using copy_once_before_build [OF parse_push refl, of world_ok] b n parse_push by blast
qed

text \<open>
  Claim C6. When the copy command or the login command of a run is answered with a
  non-zero exit status, the job is aborted with that command and that status, the failing
  call is the last event of the trace (nothing runs after it), its command occurs once in
  the trace (it is not retried), and the call was a strict \<open>Shell.check\<close>.
\<close>

theorem strict_failure_aborts:
  assumes "parse_args argv = Inr a" and "tr = snd (main w argv)"
    and "i < length tr" and "is_copy (tr ! i) \<or> is_login (tr ! i)"
    and "ev_command (tr ! i) = Some c"
    and "rc = fst (env_shell w (take i tr) c (ev_stdin (tr ! i)))" and "rc \<noteq> 0"
  shows "main w argv = (Aborted (Strict_failure c rc), take (Suc i) tr) \<and>
         Suc i = length tr \<and>
         length (filter (\<lambda>e. ev_command e = Some c) tr) = 1 \<and>
         (\<exists>s v. tr ! i = Ev_shell_check c s True v)"
proof -
  have m: "main w argv = main_with_args w a" using assms(1) by (rule main_accepted)
  note defs = copy_event_def secret_event_def login_event_def build_event_def
    is_copy_def is_login_def
  show ?thesis
  proof (rule run_cases [where w = w and a = a])
    assume "fst (env_shell w [] copy_command None) \<noteq> 0"
      and "main_with_args w a =
        (Aborted (Strict_failure copy_command (fst (env_shell w [] copy_command None))), [copy_event])"
    then show ?thesis using m assms(2-7) by (auto simp add: defs)
  next
    assume "fst (env_shell w [] copy_command None) = 0"
      and "main_with_args w a =
        (Job_completed (Result_create_from [build_result w [copy_event]]), [copy_event, build_event])"
    then show ?thesis using m assms(2-7) commands_distinct by (auto simp add: defs less_Suc_eq)
  next
    assume "fst (env_shell w [] copy_command None) = 0"
      and "main_with_args w a = (Aborted (Secret_unavailable secret_key), [copy_event, secret_event])"
    then show ?thesis using m assms(2-7) by (auto simp add: defs less_Suc_eq)
  next
    fix pw
    assume "fst (env_shell w [] copy_command None) = 0"
      and "fst (env_shell w [copy_event, secret_event] login_command (Some pw)) \<noteq> 0"
      and "main_with_args w a =
         (Aborted (Strict_failure login_command
            (fst (env_shell w [copy_event, secret_event] login_command (Some pw)))),
          [copy_event, secret_event, login_event pw])"
    then show ?thesis using m assms(2-7) commands_distinct
      by (auto simp add: defs less_Suc_eq numeral_3_eq_3)
  next
    fix pw
    assume "fst (env_shell w [] copy_command None) = 0"
      and "fst (env_shell w [copy_event, secret_event] login_command (Some pw)) = 0"
      and "main_with_args w a =
         (Job_completed
            (Result_create_from [build_result w [copy_event, secret_event, login_event pw]]),
          [copy_event, secret_event, login_event pw, build_event])"
    then show ?thesis using m assms(2-7) commands_distinct
      by (auto simp add: defs less_Suc_eq numeral_3_eq_3)
  qed
qed

theorem strict_failure_aborts_witness:
  "parse_args [] = Inr default_args \<and>
   is_copy (snd (main world_copy_fails []) ! 0) \<and>
   fst (env_shell world_copy_fails (take 0 (snd (main world_copy_fails []))) copy_command
          (ev_stdin (snd (main world_copy_fails []) ! 0))) = 1 \<and>
   main world_copy_fails [] = (Aborted (Strict_failure copy_command 1), [copy_event]) \<and>
   parse_args [Push_opt] = Inr (default_args\<lparr>args_push := True\<rparr>) \<and>
   is_login (snd (main world_login_fails [Push_opt]) ! 2) \<and>
   fst (env_shell world_login_fails (take 2 (snd (main world_login_fails [Push_opt])))
          login_command (ev_stdin (snd (main world_login_fails [Push_opt]) ! 2))) = 1 \<and>
   main world_login_fails [Push_opt] =
     (Aborted (Strict_failure login_command 1), [copy_event, secret_event, login_event ''hunter2''])"
proof -
  have c1: "is_copy (snd (main world_copy_fails []) ! 0)"
    by (simp add: run_copy_fails_no_flags)
  have c2: "ev_command (snd (main world_copy_fails []) ! 0) = Some copy_command"
    by (simp add: run_copy_fails_no_flags copy_event_def)
  have c3: "fst (env_shell world_copy_fails (take 0 (snd (main world_copy_fails []))) copy_command
          (ev_stdin (snd (main world_copy_fails []) ! 0))) = 1"
    by simp
  have c4: "0 < length (snd (main world_copy_fails []))"
    by (simp add: run_copy_fails_no_flags)
  have c5: "main world_copy_fails [] = (Aborted (Strict_failure copy_command 1), [copy_event])"
    using strict_failure_aborts [OF parse_none refl c4 disjI1 [OF c1] c2 refl] c3
    by (simp add: run_copy_fails_no_flags)
  have l1: "is_login (snd (main world_login_fails [Push_opt]) ! 2)"
    by (simp add: run_login_fails_push)
  have l2: "ev_command (snd (main world_login_fails [Push_opt]) ! 2) = Some login_command"
    by (simp add: run_login_fails_push login_event_def)
  have l3: "fst (env_shell world_login_fails (take 2 (snd (main world_login_fails [Push_opt])))
          login_command (ev_stdin (snd (main world_login_fails [Push_opt]) ! 2))) = 1"
    by simp
  have l4: "2 < length (snd (main world_login_fails [Push_opt]))"
    by (simp add: run_login_fails_push)
  have l5: "main world_login_fails [Push_opt] =
     (Aborted (Strict_failure login_command 1), [copy_event, secret_event, login_event ''hunter2''])"
    using strict_failure_aborts [OF parse_push refl l4 disjI2 [OF l1] l2 refl] l3
    by (simp add: run_login_fails_push)
  show ?thesis by (intro conjI) (rule parse_none parse_push c1 c3 c5 l1 l3 l5)+
qed

text \<open>
  Claim C7. When the build command is answered with a non-zero exit status, the run is
  not aborted: it ends in the reporter, with one failed entry that holds the output of the
  build command as its log, and the reporter's verdict, taken from that entry, is
  \<open>FAIL\<close>.
\<close>

theorem build_failure_recorded:
  assumes "parse_args argv = Inr a" and "tr = snd (main w argv)"
    and "i < length tr" and "is_build (tr ! i)"
    and "fst (env_shell w (take i tr) build_command None) \<noteq> 0"
  shows "fst (main w argv) =
           Job_completed
             \<lparr>job_results =
                [\<lparr>res_name = result_name, res_status = FAIL,
                  res_log = Some (snd (env_shell w (take i tr) build_command None))\<rparr>],
              job_status = FAIL\<rparr>"
proof -
  have m: "main w argv = main_with_args w a" using assms(1) by (rule main_accepted)
  show ?thesis
    by (rule run_cases [where w = w and a = a])
      (use m assms(2-5) in \<open>auto simp add: less_Suc_eq numeral_3_eq_3 build_result_def
         Result_create_from_def\<close>)
qed

theorem build_failure_recorded_witness:
  "parse_args [] = Inr default_args \<and>
   is_build (snd (main world_build_fails []) ! 1) \<and>
   fst (env_shell world_build_fails (take 1 (snd (main world_build_fails []))) build_command None) = 1 \<and>
   fst (main world_build_fails []) =
     Job_completed
       \<lparr>job_results =
          [\<lparr>res_name = result_name, res_status = FAIL, res_log = Some ''ERROR: failed to solve''\<rparr>],
        job_status = FAIL\<rparr>"
proof -
  have b: "is_build (snd (main world_build_fails []) ! 1)"
    by (simp add: run_build_fails_no_flags)
  have n: "1 < length (snd (main world_build_fails []))"
    by (simp add: run_build_fails_no_flags)
  have r: "fst (env_shell world_build_fails (take 1 (snd (main world_build_fails [])))
             build_command None) \<noteq> 0"
    by simp
  show ?thesis
    using build_failure_recorded [OF parse_none refl n b r] parse_none b by simp
qed

text \<open>
  Claim C8, as amended. On an accepted invocation whose strict steps succeed, the build
  command runs once and exactly one result entry, named
  \<open>clickhouse/clickhouse-server:tmp\<close>, is handed to the reporter. When a strict step
  fails, the job is aborted: the build command does not run and the reporter gets
  nothing.
\<close>

theorem one_result_entry:
  assumes "parse_args argv = Inr a"
  shows "(strict_steps_ok w a \<longrightarrow>
            (\<exists>r. fst (main w argv) = Job_completed \<lparr>job_results = [r], job_status = res_status r\<rparr> \<and>
                 res_name r = ''clickhouse/clickhouse-server:tmp'') \<and>
            length (filter is_build (snd (main w argv))) = 1) \<and>
         (\<not> strict_steps_ok w a \<longrightarrow>
            (\<exists>f. fst (main w argv) = Aborted f) \<and> filter is_build (snd (main w argv)) = [])"
proof -
  have m: "main w argv = main_with_args w a" using assms(1) by (rule main_accepted)
  have s: "\<And>r. res_status r \<noteq> OK \<Longrightarrow> res_status r = FAIL"
    by (metis status.exhaust)
  show ?thesis
    by (rule run_cases [where w = w and a = a])
      (use m result_name_literal s in \<open>auto simp add: strict_steps_ok_def build_result_def
         Result_create_from_def\<close>)
qed

theorem one_result_entry_witness:
  "parse_args [Push_opt] = Inr (default_args\<lparr>args_push := True\<rparr>) \<and>
   strict_steps_ok world_ok (default_args\<lparr>args_push := True\<rparr>) \<and>
   fst (main world_ok [Push_opt]) =
     Job_completed
       \<lparr>job_results = [\<lparr>res_name = result_name, res_status = OK, res_log = Some ''done''\<rparr>],
        job_status = OK\<rparr> \<and>
   length (filter is_build (snd (main world_ok [Push_opt]))) = 1"
proof -
  have k: "strict_steps_ok world_ok (default_args\<lparr>args_push := True\<rparr>)"
    by (simp add: strict_steps_ok_def)
  show ?thesis
    using one_result_entry [OF parse_push, of world_ok] k parse_push
    by (simp add: run_ok_push)
qed

text \<open>
  The claim as it stands promises the entry on every accepted invocation. The invocation
  without flags is accepted, and where the input binary is missing it ends at the copy,
  with no entry and no reporter.
\<close>

theorem no_result_entry_when_copy_fails:
  "parse_args [] = Inr default_args \<and>
   main world_copy_fails [] = (Aborted (Strict_failure copy_command 1), [copy_event])"
  by (simp add: parse_none run_copy_fails_no_flags)

text \<open>
  Claim C9. A login event of a run is the strict \<open>Shell.check\<close> of the fixed string
  \<open>docker login --username 'robotclickhouse' --password-stdin\<close>, whatever the
  credential is, and it has the credential fetched from the secret store as its standard
  input. No other event has a standard input, and the commands of the other events are
  fixed strings too: the credential is never put into a command string.
\<close>

theorem credential_only_on_stdin:
  assumes "ev \<in> set (snd (main w argv))"
  shows "(is_login ev \<longrightarrow>
            ev = Ev_shell_check ''docker login --username 'robotclickhouse' --password-stdin''
                   (env_secret w [copy_event] secret_key) True False \<and>
            env_secret w [copy_event] secret_key \<noteq> None) \<and>
         (\<not> is_login ev \<longrightarrow>
            ev_stdin ev = None \<and>
            (ev_command ev = None \<or> ev_command ev = Some copy_command \<or>
             ev_command ev = Some build_command))"
proof (cases "parse_args argv")
  case (Inl c)
  then show ?thesis using assms by (simp add: main_rejected)
next
  case (Inr a)
  then have m: "main w argv = main_with_args w a" by (rule main_accepted)
  have l: "\<And>pw. Ev_shell_check login_command (Some pw) True False = login_event pw"
    by (simp add: login_event_def)
  have o: "ev_stdin copy_event = None" "ev_stdin secret_event = None" "ev_stdin build_event = None"
    "ev_command copy_event = Some copy_command" "ev_command secret_event = None"
    "ev_command build_event = Some build_command"
    by (simp_all add: copy_event_def secret_event_def build_event_def)
  have "(is_login ev \<longrightarrow>
            ev = Ev_shell_check login_command (env_secret w [copy_event] secret_key) True False \<and>
            env_secret w [copy_event] secret_key \<noteq> None) \<and>
         (\<not> is_login ev \<longrightarrow>
            ev_stdin ev = None \<and>
            (ev_command ev = None \<or> ev_command ev = Some copy_command \<or>
             ev_command ev = Some build_command))"
    by (rule run_cases [where w = w and a = a]) (use m assms o in \<open>auto simp add: l\<close>)
  then show ?thesis by (simp add: login_command_def)
qed

theorem credential_only_on_stdin_witness:
  "login_event ''hunter2'' \<in> set (snd (main world_ok [Push_opt])) \<and>
   is_login (login_event ''hunter2'') \<and>
   login_event ''hunter2'' =
     Ev_shell_check ''docker login --username 'robotclickhouse' --password-stdin''
       (Some ''hunter2'') True False"
proof -
  have h: "login_event ''hunter2'' \<in> set (snd (main world_ok [Push_opt]))"
    by (simp add: run_ok_push)
  have i: "is_login (login_event ''hunter2'')" by simp
  have e: "login_event ''hunter2'' =
     Ev_shell_check ''docker login --username 'robotclickhouse' --password-stdin''
       (Some ''hunter2'') True False"
    using credential_only_on_stdin [OF h] i by simp
  show ?thesis by (intro conjI) (rule h i e)+
qed

text \<open>
  Claim C10, as amended. The parameter \<open>relogin\<close> defaults to true and \<open>main\<close> calls
  \<open>docker_login\<close> with the default, so no run of \<open>main\<close> ever issues the status
  probe. On a push-enabled run whose copy succeeds, the copy is followed at once by the
  fetch of the credential and, when the store yields it, by the login command. With
  \<open>relogin\<close> false, \<open>docker_login\<close> would start with the probe.
\<close>

theorem login_without_probe:
  "relogin_default = True \<and>
   (\<forall>ev \<in> set (snd (main w argv)). \<not> is_probe ev) \<and>
   (\<forall>a. parse_args argv = Inr a \<and> args_push a \<and> fst (env_shell w [] copy_command None) = 0 \<longrightarrow>
        take 2 (snd (main w argv)) = [copy_event, secret_event] \<and>
        (\<forall>pw. env_secret w [copy_event] secret_key = Some pw \<longrightarrow>
              snd (main w argv) ! 2 = login_event pw)) \<and>
   is_probe (snd (docker_login w False tr) ! length tr)"
proof (intro conjI)
  show "relogin_default = True" by (simp add: relogin_default_def)
next
  show "\<forall>ev \<in> set (snd (main w argv)). \<not> is_probe ev"
  proof (cases "parse_args argv")
    case (Inl c)
    then show ?thesis by (simp add: main_rejected)
  next
    case (Inr a)
    then have m: "main w argv = main_with_args w a" by (rule main_accepted)
    show ?thesis
      by (rule run_cases [where w = w and a = a]) (use m in auto)
  qed
next
  show "\<forall>a. parse_args argv = Inr a \<and> args_push a \<and> fst (env_shell w [] copy_command None) = 0 \<longrightarrow>
        take 2 (snd (main w argv)) = [copy_event, secret_event] \<and>
        (\<forall>pw. env_secret w [copy_event] secret_key = Some pw \<longrightarrow>
              snd (main w argv) ! 2 = login_event pw)"
  proof (intro allI impI)
    fix a
    assume h: "parse_args argv = Inr a \<and> args_push a \<and> fst (env_shell w [] copy_command None) = 0"
    then have m: "main w argv = main_with_args w a" by (simp add: main_accepted)
    show "take 2 (snd (main w argv)) = [copy_event, secret_event] \<and>
        (\<forall>pw. env_secret w [copy_event] secret_key = Some pw \<longrightarrow>
              snd (main w argv) ! 2 = login_event pw)"
      by (rule run_cases [where w = w and a = a]) (use m h in auto)
  qed
next
  have "\<exists>rest. snd (docker_login w False tr) =
          tr @ Ev_shell_check probe_command None False False # rest"
    by (auto simp add: docker_login_def Shell_check_def Secret_get_value_def Let_def
        split: option.splits)
  then obtain rest where
    "snd (docker_login w False tr) = tr @ Ev_shell_check probe_command None False False # rest"
    by blast
  then show "is_probe (snd (docker_login w False tr) ! length tr)"
    by (simp add: is_probe_def)
qed

theorem login_without_probe_witness:
  "parse_args [Push_opt] = Inr (default_args\<lparr>args_push := True\<rparr>) \<and>
   fst (env_shell world_ok [] copy_command None) = 0 \<and>
   snd (main world_ok [Push_opt]) ! 2 = login_event ''hunter2'' \<and>
   \<not> is_probe (login_event ''hunter2'')"
proof -
  have c: "fst (env_shell world_ok [] copy_command None) = 0" by simp
  have s: "env_secret world_ok [copy_event] secret_key = Some ''hunter2''" by simp
  have "snd (main world_ok [Push_opt]) ! 2 = login_event ''hunter2''"
    using login_without_probe [of world_ok "[Push_opt]" "[]"] parse_push c s by simp
  then show ?thesis using parse_push c by simp
qed

text \<open>
  The claim as it stands has a login attempt on every push-enabled run. A push-enabled run
  whose copy fails is aborted at the copy, before \<open>docker_login\<close> is called.
\<close>

theorem no_login_when_copy_fails:
  "parse_args [Push_opt] = Inr (default_args\<lparr>args_push := True\<rparr>) \<and>
   main world_copy_fails [Push_opt] = (Aborted (Strict_failure copy_command 1), [copy_event]) \<and>
   \<not> is_login copy_event"
  by (simp add: parse_push run_copy_fails_push)

end
